theory Spec2Isabelle
  imports Main "HOL-Library.Sublist"
begin

section \<open>Errors, formatted text and status codes\<close>

text \<open>
  A Go \<open>error\<close> value is either nil or one of the errors below; \<open>error option\<close> is the
  nilable interface value. Formatted strings are kept as the format together with its
  arguments, so that no rendering of \<open>%v\<close> has to be invented.
\<close>

datatype error =
    EnvVarNotSetError string
  | ValidationError string
  | Failure string
  | Errorf string "arg list"
and arg =
    S string
  | E "error option"
  | T message
and message =
    Lit string
  | Sprintf string "arg list"
  | ErrorText error

abbreviation StatusOK :: nat where "StatusOK \<equiv> 200"
abbreviation StatusBadRequest :: nat where "StatusBadRequest \<equiv> 400"
abbreviation StatusUnauthorized :: nat where "StatusUnauthorized \<equiv> 401"
abbreviation StatusForbidden :: nat where "StatusForbidden \<equiv> 403"
abbreviation StatusNotFound :: nat where "StatusNotFound \<equiv> 404"
abbreviation StatusInternalServerError :: nat where "StatusInternalServerError \<equiv> 500"

section \<open>The plugin constants (permissions.go)\<close>

definition pluginName :: string where "pluginName = ''permissions''"
definition logTag :: string where "logTag = ''[permissions]''"
definition envEsURL :: string where "envEsURL = ''ES_CLUSTER_URL''"
definition envPermissionEsIndex :: string where "envPermissionEsIndex = ''PERMISSIONS_ES_INDEX''"
definition envPermissionEsType :: string where "envPermissionEsType = ''PERMISSIONS_ES_TYPE''"

section \<open>The Permission entity\<close>

text \<open>
  The struct \<open>permission.Permission\<close> is declared outside the three source files. The
  record has the fields the handlers read (\<open>UserId\<close>, \<open>Ops\<close>, \<open>ACLs\<close>, \<open>Limits\<close>) and
  the ones the specification says construction generates. \<open>Ops\<close> and \<open>ACLs\<close> are Go
  slices and \<open>Limits\<close> is a pointer: \<open>None\<close> is nil (the field was absent or null in the
  JSON body), \<open>Some []\<close> is an empty, non-nil slice. Categories are kept by their JSON
  names.
\<close>

type_synonym limits = "(string \<times> int) list"

record Permission =
  UserId :: string
  Username :: string
  Password :: string
  CreatedAt :: string
  Ops :: "string list option"
  ACLs :: "string list option"
  Limits :: "limits option"

text \<open>
  A construction option is the closure one of the setters returns; it is kept as data
  and interpreted by \<open>applyOption\<close> below.
\<close>

datatype Options =
    SetUserId string
  | SetOps "string list"
  | SetACLs "string list"
  | SetLimits limits

text \<open>
  The recognised categories, the recognised quota keys and the documented defaults are
  constants of the absent package \<open>permission\<close>; they are parameters here. So are the
  values construction generates (credential name, secret, timestamp).
\<close>

record schema =
  knownOps :: "string list"
  knownACLs :: "string list"
  knownLimitKeys :: "string list"
  defaultOps :: "string list"
  defaultACLs :: "string list"
  defaultLimits :: limits

record generated =
  genUsername :: string
  genPassword :: string
  genCreatedAt :: string

definition allKnown :: "string list \<Rightarrow> string list \<Rightarrow> bool" where
  "allKnown known xs = list_all (\<lambda>c. c \<in> set known) xs"

definition limitsValid :: "string list \<Rightarrow> limits \<Rightarrow> bool" where
  "limitsValid keys l = list_all (\<lambda>(k, v). k \<in> set keys \<and> 0 \<le> v) l"

text \<open>
  Modelled from the spec: the setters \<open>SetUserId\<close>, \<open>SetOps\<close>, \<open>SetACLs\<close>, \<open>SetLimits\<close>
  of package \<open>permission\<close> are not among the source files. Section 4.1: each setter
  validates its own argument against the Permission's enumerations or shape and fails
  with a ValidationError naming the offending field.
\<close>

fun applyOption :: "schema \<Rightarrow> Options \<Rightarrow> Permission \<Rightarrow> error + Permission" where
  "applyOption sc (SetUserId u) pm = Inr (pm\<lparr>UserId := u\<rparr>)"
| "applyOption sc (SetOps v) pm =
     (if allKnown (knownOps sc) v then Inr (pm\<lparr>Ops := Some v\<rparr>)
      else Inl (ValidationError ''ops''))"
| "applyOption sc (SetACLs v) pm =
     (if allKnown (knownACLs sc) v then Inr (pm\<lparr>ACLs := Some v\<rparr>)
      else Inl (ValidationError ''acls''))"
| "applyOption sc (SetLimits l) pm =
     (if limitsValid (knownLimitKeys sc) l then Inr (pm\<lparr>Limits := Some l\<rparr>)
      else Inl (ValidationError ''limits''))"

fun applyOptions :: "schema \<Rightarrow> Options list \<Rightarrow> Permission \<Rightarrow> error + Permission" where
  "applyOptions sc [] pm = Inr pm"
| "applyOptions sc (opt # opts) pm =
     (case applyOption sc opt pm of
        Inl err \<Rightarrow> Inl err
      | Inr pm' \<Rightarrow> applyOptions sc opts pm')"

text \<open>
  Modelled from the spec: \<open>permission.New\<close> is not among the source files. Section 4.1:
  \<open>New(creatorId, options...)\<close> assigns the generated Username and Password and the
  timestamp, and merges the supplied options over the computed defaults; the first
  invalid value fails the construction. It is a pure in-memory builder.
\<close>

definition New :: "schema \<Rightarrow> generated \<Rightarrow> string \<Rightarrow> Options list \<Rightarrow> error + Permission" where
  "New sc g creatorId opts =
     applyOptions sc opts
       \<lparr>UserId = creatorId, Username = genUsername g, Password = genPassword g,
        CreatedAt = genCreatedAt g, Ops = Some (defaultOps sc), ACLs = Some (defaultACLs sc),
        Limits = Some (defaultLimits sc)\<rparr>"

datatype patch_value =
    OpsValue "string list"
  | ACLsValue "string list"
  | LimitsValue limits

type_synonym patch = "(string \<times> patch_value) list"

text \<open>
  Modelled from the spec: the method \<open>GetPatch\<close> of \<open>permission.Permission\<close> is not among
  the source files. Section 4.2: the patch holds only the explicitly provided, validated
  fields; an Ops or ACLs value outside the enumeration, or a Limits value that is negative
  or has an unrecognised key, is a ValidationError that aborts the whole patch; UserId and
  Username are never patchable (here: ignored).
\<close>

definition GetPatch :: "schema \<Rightarrow> Permission \<Rightarrow> error + patch" where
  "GetPatch sc obj =
     (if (case Ops obj of None \<Rightarrow> False | Some v \<Rightarrow> \<not> allKnown (knownOps sc) v)
        then Inl (ValidationError ''ops'')
      else if (case ACLs obj of None \<Rightarrow> False | Some v \<Rightarrow> \<not> allKnown (knownACLs sc) v)
        then Inl (ValidationError ''acls'')
      else if (case Limits obj of None \<Rightarrow> False | Some l \<Rightarrow> \<not> limitsValid (knownLimitKeys sc) l)
        then Inl (ValidationError ''limits'')
      else Inr ((case Ops obj of None \<Rightarrow> [] | Some v \<Rightarrow> [(''ops'', OpsValue v)])
              @ (case ACLs obj of None \<Rightarrow> [] | Some v \<Rightarrow> [(''acls'', ACLsValue v)])
              @ (case Limits obj of None \<Rightarrow> [] | Some l \<Rightarrow> [(''limits'', LimitsValue l)])))"

section \<open>Requests, collaborators and events\<close>

text \<open>
  A request as the handlers see it: the route variables of \<open>mux.Vars\<close>, the result of
  \<open>r.BasicAuth()\<close> (\<open>None\<close> when \<open>ok\<close> is false), the result of \<open>ioutil.ReadAll(r.Body)\<close>,
  the value stored in the context under \<open>permission.CtxKey\<close>, and the metadata the
  classifier attaches. A context value of another type makes the type assertion of
  \<open>getPermission\<close> panic.
\<close>

datatype ctx_value = NoValue | PermissionPtr Permission | OtherValue

record request =
  Vars :: "string \<rightharpoonup> string"
  BasicAuth :: "(string \<times> string) option"
  Body :: "error + string"
  CtxValue :: ctx_value
  Tags :: "string list"

datatype stage = Classifier | CredentialCheck | OpCheck | ACLCheck | AdminCheck

text \<open>
  What a handler does to the outside, in order: log lines, the read of the body, calls
  of the dao, and writes to the response writer (with their status code).
\<close>

datatype event =
    LogPrintf message
  | CallNewES string string string string
  | ReadAll
  | WriteBackError message nat
  | WriteBackRaw string nat
  | WriteBackMessage message nat
  | HttpError message nat
  | EsGetRawPermission string
  | EsPutPermission Permission
  | EsPatchPermission string patch
  | EsDeletePermission string
  | Panic
  | Enter stage

type_synonym HandlerFunc = "request \<Rightarrow> event list"

fun status :: "event \<Rightarrow> nat option" where
  "status (WriteBackError _ c) = Some c"
| "status (WriteBackRaw _ c) = Some c"
| "status (WriteBackMessage _ c) = Some c"
| "status (HttpError _ c) = Some c"
| "status _ = None"

fun isStoreCall :: "event \<Rightarrow> bool" where
  "isStoreCall (EsGetRawPermission _) = True"
| "isStoreCall (EsPutPermission _) = True"
| "isStoreCall (EsPatchPermission _ _) = True"
| "isStoreCall (EsDeletePermission _) = True"
| "isStoreCall _ = False"

fun isCallNewES :: "event \<Rightarrow> bool" where
  "isCallNewES (CallNewES _ _ _ _) = True"
| "isCallNewES _ = False"

fun stageOf :: "event \<Rightarrow> stage option" where
  "stageOf (Enter st) = Some st"
| "stageOf _ = None"

definition statuses :: "event list \<Rightarrow> nat list" where
  "statuses evs = List.map_filter status evs"

definition storeCalls :: "event list \<Rightarrow> event list" where
  "storeCalls evs = filter isStoreCall evs"

definition stages :: "event list \<Rightarrow> stage list" where
  "stages evs = List.map_filter stageOf evs"

text \<open>
  The plugin struct holds the pointer to its elasticsearch dao; \<open>'es\<close> is the type of that
  pointer. The dao's methods, \<open>encoding/json\<close> on a Permission, the categories and the
  generated values are collaborators outside the source files and are parameters. A dao
  method that returns \<open>(bool, error)\<close> is a pair, since the handlers test both.
\<close>

record 'es Permissions =
  es :: 'es

record 'es externals =
  Unmarshal :: "string \<Rightarrow> error + Permission"
  Marshal :: "Permission \<Rightarrow> error + string"
  es_getRawPermission :: "'es \<Rightarrow> string \<Rightarrow> error + string"
  es_putPermission :: "'es \<Rightarrow> Permission \<Rightarrow> bool \<times> error option"
  es_patchPermission :: "'es \<Rightarrow> string \<Rightarrow> patch \<Rightarrow> bool \<times> error option"
  es_deletePermission :: "'es \<Rightarrow> string \<Rightarrow> bool \<times> error option"
  categories :: schema
  fresh :: generated

text \<open>\<open>vars["username"]\<close>: a missing key of a Go map reads as the empty string.\<close>

definition usernameVar :: "request \<Rightarrow> string" where
  "usernameVar r = (case Vars r ''username'' of None \<Rightarrow> '''' | Some u \<Rightarrow> u)"

section \<open>The handlers (part 000)\<close>

text \<open>
  Lines 41 to 49 of \<open>getPermission\<close>: the fetch from elasticsearch. Every error of the dao
  is answered with \<open>http.StatusNotFound\<close>.
\<close>

definition fetchPermission :: "'es externals \<Rightarrow> 'es Permissions \<Rightarrow> string \<Rightarrow> event list" where
  \<open>fetchPermission x p username =
     EsGetRawPermission username #
     (case es_getRawPermission x (es p) username of
        Inl err \<Rightarrow>
          (let msg = Sprintf ''permission for "username"="%s" not found'' [S username]
           in [LogPrintf (Sprintf ''%s: %s: %v\<newline>'' [S logTag, T msg, E (Some err)]),
               WriteBackError msg StatusNotFound])
      | Inr rawPermission \<Rightarrow> [WriteBackRaw rawPermission StatusOK])\<close>

text \<open>
  \<open>getPermission\<close>. The branch for a context Permission returns after a marshalling
  error (line 36) but not after the successful write of line 38: control goes on to the
  fetch.
\<close>

definition getPermission :: "'es externals \<Rightarrow> 'es Permissions \<Rightarrow> HandlerFunc" where
  "getPermission x p r =
     (let username = usernameVar r
      in case CtxValue r of
           NoValue \<Rightarrow> fetchPermission x p username
         | OtherValue \<Rightarrow> [Panic]
         | PermissionPtr pm \<Rightarrow>
             (case Marshal x pm of
                Inl err \<Rightarrow>
                  (let msg = Lit ''error parsing the context permissions object''
                   in [LogPrintf (Sprintf ''%s: %s: %v\<newline>'' [S logTag, T msg, E (Some err)]),
                       WriteBackError msg StatusInternalServerError])
              | Inr rawPermission \<Rightarrow>
                  WriteBackRaw rawPermission StatusOK # fetchPermission x p username))"

text \<open>Lines 87 to 99 of \<open>putPermission\<close>: the options built from the decoded body.\<close>

definition putOptions :: "Permission \<Rightarrow> Options list" where
  "putOptions obj =
     (if UserId obj \<noteq> '''' then [SetUserId (UserId obj)] else [])
     @ (case Ops obj of None \<Rightarrow> [] | Some v \<Rightarrow> [SetOps v])
     @ (case ACLs obj of None \<Rightarrow> [] | Some v \<Rightarrow> [SetACLs v])
     @ (case Limits obj of None \<Rightarrow> [] | Some l \<Rightarrow> [SetLimits l])"

definition putPermission :: "'es externals \<Rightarrow> 'es Permissions \<Rightarrow> HandlerFunc" where
  "putPermission x p r =
     (case BasicAuth r of
        None \<Rightarrow> [WriteBackError (Lit ''credentials not provided'') StatusUnauthorized]
      | Some (userId, _) \<Rightarrow>
          ReadAll #
          (case Body r of
             Inl err \<Rightarrow>
               (let msg = Lit ''can't read body''
                in [LogPrintf (Sprintf ''%s: %s: %v\<newline>'' [S logTag, T msg, E (Some err)]),
                    WriteBackError msg StatusBadRequest])
           | Inr body \<Rightarrow>
               (case Unmarshal x body of
                  Inl err \<Rightarrow>
                    (let msg = Lit ''error parsing request body''
                     in [LogPrintf (Sprintf ''%s: %s: %v\<newline>'' [S logTag, T msg, E (Some err)]),
                         HttpError msg StatusBadRequest])
                | Inr obj \<Rightarrow>
                    (case New (categories x) (fresh x) userId (putOptions obj) of
                       Inl err \<Rightarrow>
                         (let msg = Sprintf ''error constructing permission object: %v'' [E (Some err)]
                          in [LogPrintf (Sprintf ''%s: %s'' [S logTag, T msg]),
                              WriteBackError msg StatusInternalServerError])
                     | Inr newPermission \<Rightarrow>
                         (case Marshal x newPermission of
                            Inl err \<Rightarrow>
                              [LogPrintf (Sprintf ''%s: unable to marshal newPermission object: %v''
                                            [S logTag, E (Some err)]),
                               WriteBackMessage (Lit ''Unable to create permission'')
                                 StatusInternalServerError]
                          | Inr rawPermission \<Rightarrow>
                              EsPutPermission newPermission #
                              (case es_putPermission x (es p) newPermission of
                                 (ok, err) \<Rightarrow>
                                   if ok \<and> err = None then [WriteBackRaw rawPermission StatusOK]
                                   else [WriteBackError
                                           (Sprintf ''unable to create permission for user_id=%s: %v\<newline>''
                                              [S userId, E err])
                                           StatusInternalServerError]))))))"

definition patchPermission :: "'es externals \<Rightarrow> 'es Permissions \<Rightarrow> HandlerFunc" where
  "patchPermission x p r =
     (let username = usernameVar r
      in ReadAll #
         (case Body r of
            Inl err \<Rightarrow>
              (let msg = Lit ''can't read body''
               in [LogPrintf (Sprintf ''%s: %s: %v\<newline>'' [S logTag, T msg, E (Some err)]),
                   WriteBackError msg StatusBadRequest])
          | Inr body \<Rightarrow>
              (case Unmarshal x body of
                 Inl err \<Rightarrow>
                   (let msg = Lit ''error parsing request body''
                    in [LogPrintf (Sprintf ''%s: %s: %v\<newline>'' [S logTag, T msg, E (Some err)]),
                        WriteBackError msg StatusBadRequest])
               | Inr obj \<Rightarrow>
                   (case GetPatch (categories x) obj of
                      Inl err \<Rightarrow>
                        [LogPrintf (Sprintf ''%s: %v'' [S logTag, E (Some err)]),
                         WriteBackError (ErrorText err) StatusBadRequest]
                    | Inr patch \<Rightarrow>
                        EsPatchPermission username patch #
                        (case es_patchPermission x (es p) username patch of
                           (ok, err) \<Rightarrow>
                             if ok \<and> err = None
                             then [WriteBackMessage (Lit ''successfully updated permission'') StatusOK]
                             else
                               (let msg = Sprintf ''error updating permission for username=%s''
                                            [S username]
                                in [LogPrintf (Sprintf ''%s: %s: %v'' [S logTag, T msg, E err]),
                                    WriteBackError msg StatusInternalServerError]))))))"

definition deletePermission :: "'es externals \<Rightarrow> 'es Permissions \<Rightarrow> HandlerFunc" where
  \<open>deletePermission x p r =
     (let username = usernameVar r
      in EsDeletePermission username #
         (case es_deletePermission x (es p) username of
            (ok, err) \<Rightarrow>
              if ok \<and> err = None
              then [WriteBackMessage (Lit ''successfully deleted permission'') StatusOK]
              else
                (let msg = Sprintf ''error deleting permission for "username"="%s"'' [S username]
                 in [LogPrintf (Sprintf ''%s: %s: %v'' [S logTag, T msg, E err]),
                     WriteBackError msg StatusInternalServerError])))\<close>

section \<open>Plugin initialisation (permissions.go, InitFunc)\<close>

text \<open>
  The process environment, the dao constructor \<open>NewES\<close> and the constant
  \<open>permission.IndexMapping\<close> live outside the three source files and are parameters.
  \<open>os.Getenv\<close> gives the empty string for an unset variable. The assignment
  \<open>p.es, err = NewES(...)\<close> stores the dao also when \<open>err\<close> is not nil.
\<close>

record 'es startup =
  Getenv :: "string \<Rightarrow> string"
  NewES :: "string \<Rightarrow> string \<Rightarrow> string \<Rightarrow> string \<Rightarrow> 'es \<times> error option"
  IndexMapping :: string

definition InitFunc ::
  "'es startup \<Rightarrow> 'es Permissions \<Rightarrow> 'es Permissions \<times> event list \<times> error option" where
  "InitFunc s p =
    (let log0 = [LogPrintf (Sprintf ''%s: initializing plugin: %s\<newline>'' [S logTag, S pluginName])];
         url = Getenv s envEsURL
     in if url = '''' then (p, log0, Some (EnvVarNotSetError envEsURL))
        else
          let indexName = Getenv s envPermissionEsIndex
          in if indexName = '''' then (p, log0, Some (EnvVarNotSetError envPermissionEsIndex))
             else
               let typeName = Getenv s envPermissionEsType
               in if typeName = '''' then (p, log0, Some (EnvVarNotSetError envPermissionEsType))
                  else
                    let mapping = IndexMapping s;
                        (dao, err) = NewES s url indexName typeName mapping;
                        p' = p\<lparr>es := dao\<rparr>;
                        evs = log0 @ [CallNewES url indexName typeName mapping]
                    in if err \<noteq> None
                       then (p', evs,
                             Some (Errorf ''%s: error initializing permission's elasticsearch dao: %v''
                                     [S logTag, E err]))
                       else (p', evs, None))"

definition requiredEnvVars :: "string list" where
  "requiredEnvVars = [envEsURL, envPermissionEsIndex, envPermissionEsType]"

section \<open>The guards and the routing table (part 001)\<close>

text \<open>
  The decisions of the guards depend on collaborators the specification leaves outside
  (the classifier's metadata, the authenticator, the category an endpoint requires); they
  are parameters. The authenticator gives the value it attaches to the request context,
  or \<open>None\<close> for a credential pair it does not accept.
\<close>

record guards =
  classify :: "request \<Rightarrow> string list"
  authenticate :: "string \<Rightarrow> string \<Rightarrow> ctx_value option"
  opPermitted :: "request \<Rightarrow> bool"
  aclPermitted :: "request \<Rightarrow> bool"
  adminPermitted :: "request \<Rightarrow> bool"

text \<open>
  Modelled from the spec: the middleware \<open>classifier\<close> is not among the source files.
  Section 4.3, stage 1: it tags the request with metadata used by later stages and has no
  rejection authority. Each guard records that it was entered.
\<close>

definition classifier :: "guards \<Rightarrow> HandlerFunc \<Rightarrow> HandlerFunc" where
  "classifier g h r = Enter Classifier # h (r\<lparr>Tags := classify g r\<rparr>)"

text \<open>
  Modelled from the spec: the middleware \<open>auth.New().BasicAuth\<close> is not among the source
  files. Section 4.3, stage 2: it requires a validated basic-auth credential pair on the
  request; a missing or unparseable pair is Unauthenticated (401); otherwise the
  authenticator's result is attached to the request context before the next stage runs.
\<close>

definition basicAuth :: "guards \<Rightarrow> HandlerFunc \<Rightarrow> HandlerFunc" where
  "basicAuth g h r =
     Enter CredentialCheck #
     (case BasicAuth r of
        None \<Rightarrow> [WriteBackError (Lit ''Unauthenticated'') StatusUnauthorized]
      | Some (u, pw) \<Rightarrow>
          (case authenticate g u pw of
             None \<Rightarrow> [WriteBackError (Lit ''Unauthenticated'') StatusUnauthorized]
           | Some v \<Rightarrow> h (r\<lparr>CtxValue := v\<rparr>)))"

text \<open>
  Modelled from the spec: the middleware \<open>validateOp\<close>, \<open>validateACL\<close> and \<open>isAdmin\<close> are
  not among the source files. Section 4.3, stages 3 to 5: each one either calls the next
  stage or terminates the request with Forbidden (403).
\<close>

definition validateOp :: "guards \<Rightarrow> HandlerFunc \<Rightarrow> HandlerFunc" where
  "validateOp g h r =
     Enter OpCheck #
     (if opPermitted g r then h r else [WriteBackError (Lit ''Forbidden'') StatusForbidden])"

definition validateACL :: "guards \<Rightarrow> HandlerFunc \<Rightarrow> HandlerFunc" where
  "validateACL g h r =
     Enter ACLCheck #
     (if aclPermitted g r then h r else [WriteBackError (Lit ''Forbidden'') StatusForbidden])"

definition isAdmin :: "guards \<Rightarrow> HandlerFunc \<Rightarrow> HandlerFunc" where
  "isAdmin g h r =
     Enter AdminCheck #
     (if adminPermitted g r then h r else [WriteBackError (Lit ''Forbidden'') StatusForbidden])"

definition MethodGet :: string where "MethodGet = ''GET''"
definition MethodPut :: string where "MethodPut = ''PUT''"
definition MethodPatch :: string where "MethodPatch = ''PATCH''"
definition MethodDelete :: string where "MethodDelete = ''DELETE''"

record Route =
  Name :: string
  Methods :: "string list"
  Path :: string
  HandlerFunc :: HandlerFunc
  Description :: string

definition routes :: "guards \<Rightarrow> 'es externals \<Rightarrow> 'es Permissions \<Rightarrow> Route list" where
  "routes g x p =
     [\<lparr>Name = ''Get Permission'',
       Methods = [MethodGet],
       Path = ''/_permission/{username}'',
       HandlerFunc = classifier g (basicAuth g (validateOp g (validateACL g (getPermission x p)))),
       Description = ''Fetch the permission object from the repository''\<rparr>,
      \<lparr>Name = ''Create Permission'',
       Methods = [MethodPut],
       Path = ''/_permission'',
       HandlerFunc =
         classifier g (basicAuth g (validateOp g (validateACL g (isAdmin g (putPermission x p))))),
       Description = ''Create a new permission object in the repository''\<rparr>,
      \<lparr>Name = ''Patch Permission'',
       Methods = [MethodPatch],
       Path = ''/_permission/{username}'',
       HandlerFunc =
         classifier g (basicAuth g (validateOp g (validateACL g (isAdmin g (patchPermission x p))))),
       Description = ''Update the permission object in the repository''\<rparr>,
      \<lparr>Name = ''Delete Permission'',
       Methods = [MethodDelete],
       Path = ''/_permission/{username}'',
       HandlerFunc =
         classifier g (basicAuth g (validateOp g (validateACL g (isAdmin g (deletePermission x p))))),
       Description = ''Delete the permission object in the repository''\<rparr>]"

text \<open>
  The request as it leaves the first four guards, when all of them let it pass: tagged by
  the classifier and carrying the authenticator's context value.
\<close>

definition admitted :: "guards \<Rightarrow> request \<Rightarrow> request option" where
  "admitted g r =
     (case BasicAuth r of
        None \<Rightarrow> None
      | Some (u, pw) \<Rightarrow>
          (case authenticate g u pw of
             None \<Rightarrow> None
           | Some v \<Rightarrow>
               (let r' = r\<lparr>Tags := classify g r, CtxValue := v\<rparr>
                in if opPermitted g r' \<and> aclPermitted g r' then Some r' else None)))"

section \<open>Concrete collaborators and requests\<close>

text \<open>
  A small installation used to run the handlers: three operation categories, two ACL
  categories, one quota key; a store that holds the single record of \<open>bob\<close>; a decoder
  that knows three request bodies.
\<close>

definition demo_schema :: schema where
  "demo_schema =
     \<lparr>knownOps = [''read'', ''write'', ''delete''], knownACLs = [''search'', ''docs''],
      knownLimitKeys = [''ttl_sec''], defaultOps = [''read''], defaultACLs = [''search''],
      defaultLimits = [(''ttl_sec'', 3600)]\<rparr>"

definition demo_generated :: generated where
  "demo_generated =
     \<lparr>genUsername = ''u-7f3a'', genPassword = ''9d2c'', genCreatedAt = ''2019-01-01T00:00:00Z''\<rparr>"

definition zeroPermission :: Permission where
  "zeroPermission =
     \<lparr>UserId = '''', Username = '''', Password = '''', CreatedAt = '''',
      Ops = None, ACLs = None, Limits = None\<rparr>"

definition body_with_user_id :: string where
  \<open>body_with_user_id = ''{"user_id":"mallory","ops":["read"]}''\<close>

definition body_empty_ops :: string where
  \<open>body_empty_ops = ''{"ops":[]}''\<close>

definition body_empty_object :: string where
  \<open>body_empty_object = ''{}''\<close>

definition demo_Unmarshal :: "string \<Rightarrow> error + Permission" where
  "demo_Unmarshal body =
     (if body = body_with_user_id
        then Inr (zeroPermission\<lparr>UserId := ''mallory'', Ops := Some [''read'']\<rparr>)
      else if body = body_empty_ops then Inr (zeroPermission\<lparr>Ops := Some []\<rparr>)
      else if body = body_empty_object then Inr zeroPermission
      else Inl (Failure ''invalid character''))"

definition demo_Marshal :: "Permission \<Rightarrow> error + string" where
  "demo_Marshal pm = Inr (''user_id='' @ UserId pm @ '' username='' @ Username pm)"

definition demo_externals :: "unit externals" where
  "demo_externals =
     \<lparr>Unmarshal = demo_Unmarshal,
      Marshal = demo_Marshal,
      es_getRawPermission =
        (\<lambda>_ u. if u = ''bob'' then Inr ''user_id=alice username=bob''
                else Inl (Failure ''not found'')),
      es_putPermission = (\<lambda>_ _. (True, None)),
      es_patchPermission =
        (\<lambda>_ u _. if u = ''bob'' then (True, None) else (False, Some (Failure ''not found''))),
      es_deletePermission =
        (\<lambda>_ u. if u = ''bob'' then (True, None) else (False, Some (Failure ''not found''))),
      categories = demo_schema,
      fresh = demo_generated\<rparr>"

text \<open>The same installation while the store cannot be reached.\<close>

definition demo_unreachable :: "unit externals" where
  "demo_unreachable =
     demo_externals
       \<lparr>es_getRawPermission := (\<lambda>_ _. Inl (Failure ''connection refused'')),
        es_putPermission := (\<lambda>_ _. (False, Some (Failure ''connection refused''))),
        es_patchPermission := (\<lambda>_ _ _. (False, Some (Failure ''connection refused''))),
        es_deletePermission := (\<lambda>_ _. (False, Some (Failure ''connection refused'')))\<rparr>"

definition demo_plugin :: "unit Permissions" where
  "demo_plugin = \<lparr>es = ()\<rparr>"

definition demo_request :: "string \<Rightarrow> (string \<times> string) option \<Rightarrow> string \<Rightarrow> request" where
  "demo_request username cred body =
     \<lparr>Vars = [''username'' \<mapsto> username], BasicAuth = cred, Body = Inr body,
      CtxValue = NoValue, Tags = []\<rparr>"

definition demo_guards :: guards where
  "demo_guards =
     \<lparr>classify = (\<lambda>_. [''permission'']),
      authenticate =
        (\<lambda>u pw. if (u = ''alice'' \<and> pw = ''wonderland'') \<or> (u = ''bob'' \<and> pw = ''builder'')
                then Some NoValue else None),
      opPermitted = (\<lambda>_. True),
      aclPermitted = (\<lambda>_. True),
      adminPermitted = (\<lambda>r. BasicAuth r = Some (''alice'', ''wonderland''))\<rparr>"

definition demo_startup :: "string list \<Rightarrow> unit startup" where
  "demo_startup unset =
     \<lparr>Getenv = (\<lambda>v. if v \<in> set unset then '''' else ''value-of-'' @ v),
      NewES = (\<lambda>_ _ _ _. ((), None)),
      IndexMapping = ''{}''\<rparr>"

section \<open>Auxiliary facts\<close>

lemmas demo_defs =
  demo_externals_def demo_unreachable_def demo_plugin_def demo_request_def demo_schema_def
  demo_generated_def demo_Unmarshal_def demo_Marshal_def zeroPermission_def
  body_with_user_id_def body_empty_ops_def body_empty_object_def

lemmas guard_defs =
  classifier_def basicAuth_def validateOp_def validateACL_def isAdmin_def

subsection \<open>Construction keeps the creator unless \<open>SetUserId\<close> is among the options\<close>

lemma applyOption_keeps_UserId:
  "applyOption sc opt pm = Inr pm' \<Longrightarrow> (\<forall>u. opt \<noteq> SetUserId u) \<Longrightarrow> UserId pm' = UserId pm"
  by (cases opt) (auto split: if_splits)

lemma applyOptions_keeps_UserId:
  "applyOptions sc opts pm = Inr pm' \<Longrightarrow> (\<forall>u. SetUserId u \<notin> set opts) \<Longrightarrow> UserId pm' = UserId pm"
proof (induction opts arbitrary: pm)
  case Nil
  then show ?case by simp
next
  case (Cons opt opts)
  from Cons.prems(1) obtain pm1 where
    step: "applyOption sc opt pm = Inr pm1" and rest: "applyOptions sc opts pm1 = Inr pm'"
    by (auto split: sum.splits)
  from Cons.prems(2) have "\<forall>u. opt \<noteq> SetUserId u" by auto
  with step have "UserId pm1 = UserId pm" by (rule applyOption_keeps_UserId)
  moreover from Cons.prems(2) have "\<forall>u. SetUserId u \<notin> set opts" by auto
  with rest have "UserId pm' = UserId pm1" by (rule Cons.IH)
  ultimately show ?case by simp
qed

lemma New_putOptions_UserId:
  assumes "New sc g userId (putOptions obj) = Inr pm"
  shows "UserId pm = (if UserId obj = '''' then userId else UserId obj)"
proof -
  define rest where "rest =
     (case Ops obj of None \<Rightarrow> [] | Some v \<Rightarrow> [SetOps v])
     @ (case ACLs obj of None \<Rightarrow> [] | Some v \<Rightarrow> [SetACLs v])
     @ (case Limits obj of None \<Rightarrow> [] | Some l \<Rightarrow> [SetLimits l])"
  have no_set: "\<forall>u. SetUserId u \<notin> set rest"
    by (auto simp: rest_def split: option.splits)
  have opts: "putOptions obj = (if UserId obj \<noteq> '''' then [SetUserId (UserId obj)] else []) @ rest"
    by (simp add: putOptions_def rest_def)
  show ?thesis
  proof (cases "UserId obj = ''''")
    case True
    with assms opts have "applyOptions sc rest
       \<lparr>UserId = userId, Username = genUsername g, Password = genPassword g,
        CreatedAt = genCreatedAt g, Ops = Some (defaultOps sc), ACLs = Some (defaultACLs sc),
        Limits = Some (defaultLimits sc)\<rparr> = Inr pm"
      by (simp add: New_def)
    from applyOptions_keeps_UserId [OF this no_set] True show ?thesis by simp
  next
    case False
    with assms opts have "applyOptions sc rest
       \<lparr>UserId = UserId obj, Username = genUsername g, Password = genPassword g,
        CreatedAt = genCreatedAt g, Ops = Some (defaultOps sc), ACLs = Some (defaultACLs sc),
        Limits = Some (defaultLimits sc)\<rparr> = Inr pm"
      by (simp add: New_def)
    from applyOptions_keeps_UserId [OF this no_set] False show ?thesis by simp
  qed
qed

subsection \<open>What \<open>putPermission\<close> hands to the store\<close>

lemma putPermission_persists_New:
  assumes "EsPutPermission pm \<in> set (putPermission x p r)"
  shows "\<exists>userId pw body obj.
           BasicAuth r = Some (userId, pw) \<and> Body r = Inr body \<and> Unmarshal x body = Inr obj
           \<and> New (categories x) (fresh x) userId (putOptions obj) = Inr pm"
proof (cases "BasicAuth r")
  case None
  with assms show ?thesis by (simp add: putPermission_def)
next
  case (Some cred)
  obtain userId pw where cred: "cred = (userId, pw)" by (cases cred)
  show ?thesis
  proof (cases "Body r")
    case (Inl err)
    with assms Some cred show ?thesis by (simp add: putPermission_def Let_def)
  next
    case body: (Inr body)
    show ?thesis
    proof (cases "Unmarshal x body")
      case (Inl err)
      with assms Some cred body show ?thesis by (simp add: putPermission_def Let_def)
    next
      case obj: (Inr obj)
      show ?thesis
      proof (cases "New (categories x) (fresh x) userId (putOptions obj)")
        case (Inl err)
        with assms Some cred body obj show ?thesis by (simp add: putPermission_def Let_def)
      next
        case new: (Inr newPermission)
        have "pm = newPermission"
        proof (cases "Marshal x newPermission")
          case (Inl err)
          with assms Some cred body obj new show ?thesis by (simp add: putPermission_def)
        next
          case (Inr raw)
          with assms Some cred body obj new show ?thesis
            by (cases "es_putPermission x (es p) newPermission")
               (simp add: putPermission_def split: if_splits)
        qed
        with Some cred body obj new show ?thesis by simp
      qed
    qed
  qed
qed

lemma putPermission_New_error:
  assumes "BasicAuth r = Some (userId, pw)" "Body r = Inr body" "Unmarshal x body = Inr obj"
    "New (categories x) (fresh x) userId (putOptions obj) = Inl err"
  shows "statuses (putPermission x p r) = [StatusInternalServerError]"
    and "storeCalls (putPermission x p r) = []"
  using assms by (simp_all add: putPermission_def statuses_def storeCalls_def Let_def)

subsection \<open>The answer to a body that is refused\<close>

text \<open>
  A body can be refused at three places: by the decoder, by \<open>New\<close> on create, and by
  \<open>GetPatch\<close> on patch. None of them lets the request reach the store. A refusal by the
  decoder or by \<open>GetPatch\<close> is answered 400, a refusal by \<open>New\<close> is answered 500.
\<close>

lemma putPermission_decode_error:
  assumes "BasicAuth r = Some (userId, pw)" "Body r = Inr body" "Unmarshal x body = Inl err"
  shows "statuses (putPermission x p r) = [StatusBadRequest]"
    and "storeCalls (putPermission x p r) = []"
  using assms by (simp_all add: putPermission_def statuses_def storeCalls_def Let_def)

lemma patchPermission_decode_error:
  assumes "Body r = Inr body" "Unmarshal x body = Inl err"
  shows "statuses (patchPermission x p r) = [StatusBadRequest]"
    and "storeCalls (patchPermission x p r) = []"
  using assms by (simp_all add: patchPermission_def statuses_def storeCalls_def Let_def)

subsection \<open>The store outcomes of fetch, patch and delete\<close>

lemma getPermission_store_error:
  assumes "CtxValue r = NoValue" "es_getRawPermission x (es p) (usernameVar r) = Inl err"
  shows "statuses (getPermission x p r) = [StatusNotFound]"
  using assms by (simp add: getPermission_def fetchPermission_def statuses_def Let_def)

lemma getPermission_context_permission:
  assumes "CtxValue r = PermissionPtr pm" "Marshal x pm = Inr raw"
  shows "storeCalls (getPermission x p r) = [EsGetRawPermission (usernameVar r)]"
  using assms
  by (cases "es_getRawPermission x (es p) (usernameVar r)")
     (simp_all add: getPermission_def fetchPermission_def storeCalls_def Let_def)

lemma deletePermission_statuses:
  "statuses (deletePermission x p r) =
     [if es_deletePermission x (es p) (usernameVar r) = (True, None)
      then StatusOK else StatusInternalServerError]"
  by (cases "es_deletePermission x (es p) (usernameVar r)")
     (simp add: statuses_def deletePermission_def Let_def)

lemma deletePermission_storeCalls:
  "storeCalls (deletePermission x p r) = [EsDeletePermission (usernameVar r)]"
  by (cases "es_deletePermission x (es p) (usernameVar r)")
     (simp add: storeCalls_def deletePermission_def Let_def)

lemma patchPermission_at_store:
  assumes "Body r = Inr body" "Unmarshal x body = Inr obj" "GetPatch (categories x) obj = Inr pt"
  shows "statuses (patchPermission x p r) =
           [if es_patchPermission x (es p) (usernameVar r) pt = (True, None)
            then StatusOK else StatusInternalServerError]"
    and "storeCalls (patchPermission x p r) = [EsPatchPermission (usernameVar r) pt]"
  using assms
  by (cases "es_patchPermission x (es p) (usernameVar r) pt";
      simp add: statuses_def storeCalls_def patchPermission_def Let_def)+

lemma patchPermission_invalid:
  assumes "Body r = Inr body" "Unmarshal x body = Inr obj" "GetPatch (categories x) obj = Inl err"
  shows "statuses (patchPermission x p r) = [StatusBadRequest]"
    and "storeCalls (patchPermission x p r) = []"
  using assms by (simp_all add: statuses_def storeCalls_def patchPermission_def Let_def)

lemma patchPermission_statuses_range:
  "set (statuses (patchPermission x p r))
     \<subseteq> {StatusOK, StatusBadRequest, StatusInternalServerError}"
proof (cases "Body r")
  case (Inl err)
  then show ?thesis by (simp add: statuses_def patchPermission_def Let_def)
next
  case body: (Inr body)
  show ?thesis
  proof (cases "Unmarshal x body")
    case (Inl err)
    with body show ?thesis by (simp add: statuses_def patchPermission_def Let_def)
  next
    case obj: (Inr obj)
    show ?thesis
    proof (cases "GetPatch (categories x) obj")
      case (Inl err)
      from patchPermission_invalid(1) [OF body obj this] show ?thesis by simp
    next
      case (Inr pt)
      from patchPermission_at_store(1) [OF body obj this] show ?thesis by simp
    qed
  qed
qed

subsection \<open>Stage entries in a trace\<close>

lemma stages_simps [simp]:
  "stages [] = []"
  "stages (Enter st # evs) = st # stages evs"
  "stageOf e = None \<Longrightarrow> stages (e # evs) = stages evs"
  by (simp_all add: stages_def)

lemma stages_append [simp]: "stages (evs @ evs') = stages evs @ stages evs'"
  by (induction evs) (simp_all add: stages_def split: option.splits)

lemma no_stage_events:
  "list_all (\<lambda>e. stageOf e = None) evs \<Longrightarrow>
     stages evs = [] \<and> filter (\<lambda>e. stageOf e = None) evs = evs"
  by (induction evs) simp_all

lemma fetchPermission_no_stage: "list_all (\<lambda>e. stageOf e = None) (fetchPermission x p u)"
  by (simp add: fetchPermission_def Let_def split: sum.splits)

lemma getPermission_no_stage: "list_all (\<lambda>e. stageOf e = None) (getPermission x p r)"
  by (simp add: getPermission_def fetchPermission_no_stage Let_def split: ctx_value.splits sum.splits)

lemma putPermission_no_stage: "list_all (\<lambda>e. stageOf e = None) (putPermission x p r)"
  by (simp add: putPermission_def Let_def split: option.splits sum.splits prod.splits)

lemma patchPermission_no_stage: "list_all (\<lambda>e. stageOf e = None) (patchPermission x p r)"
  by (simp add: patchPermission_def Let_def split: sum.splits prod.splits)

lemma deletePermission_no_stage: "list_all (\<lambda>e. stageOf e = None) (deletePermission x p r)"
  by (simp add: deletePermission_def Let_def split: prod.splits)

lemmas handler_no_stage =
  no_stage_events [OF getPermission_no_stage] no_stage_events [OF putPermission_no_stage]
  no_stage_events [OF patchPermission_no_stage] no_stage_events [OF deletePermission_no_stage]

lemma routes_unfold:
  "rt \<in> set (routes g x p) \<Longrightarrow>
     (Name rt = ''Get Permission'' \<and>
      HandlerFunc rt = classifier g (basicAuth g (validateOp g (validateACL g (getPermission x p)))))
   \<or> (Name rt = ''Create Permission'' \<and>
      HandlerFunc rt =
        classifier g (basicAuth g (validateOp g (validateACL g (isAdmin g (putPermission x p))))))
   \<or> (Name rt = ''Patch Permission'' \<and>
      HandlerFunc rt =
        classifier g (basicAuth g (validateOp g (validateACL g (isAdmin g (patchPermission x p))))))
   \<or> (Name rt = ''Delete Permission'' \<and>
      HandlerFunc rt =
        classifier g (basicAuth g (validateOp g (validateACL g (isAdmin g (deletePermission x p))))))"
  by (auto simp: routes_def)



section \<open>The claims\<close>

subsection \<open>C1: whose identifier the created Permission carries\<close>

text \<open>
  The claim as written (the caller's basic-auth identifier always becomes the UserId, and
  the body cannot override it) fails: caller \<open>alice\<close> sends a body with
  \<open>"user_id":"mallory"\<close>, and the Permission handed to the store has UserId \<open>mallory\<close>.
\<close>

theorem putPermission_UserId_counterexample:
  "BasicAuth (demo_request '''' (Some (''alice'', ''wonderland'')) body_with_user_id)
     = Some (''alice'', ''wonderland'')
   \<and> putPermission demo_externals demo_plugin
       (demo_request '''' (Some (''alice'', ''wonderland'')) body_with_user_id)
     = [ReadAll,
        EsPutPermission
          \<lparr>UserId = ''mallory'', Username = ''u-7f3a'', Password = ''9d2c'',
           CreatedAt = ''2019-01-01T00:00:00Z'', Ops = Some [''read''], ACLs = Some [''search''],
           Limits = Some [(''ttl_sec'', 3600)]\<rparr>,
        WriteBackRaw ''user_id=mallory username=u-7f3a'' StatusOK]"
  by (simp add: putPermission_def putOptions_def New_def allKnown_def Let_def demo_defs)

text \<open>
  C1 (amended). For every create request, the Permission handed to the store is the one
  \<open>New\<close> built for the caller's basic-auth identifier and the options of the decoded body;
  its UserId is the caller's identifier when the body carries no (an empty) \<open>user_id\<close>,
  and the body's \<open>user_id\<close> otherwise.
\<close>

theorem putPermission_persisted_UserId:
  "EsPutPermission pm \<in> set (putPermission x p r) \<Longrightarrow>
     \<exists>userId pw body obj.
        BasicAuth r = Some (userId, pw) \<and> Body r = Inr body \<and> Unmarshal x body = Inr obj
        \<and> New (categories x) (fresh x) userId (putOptions obj) = Inr pm
        \<and> UserId pm = (if UserId obj = '''' then userId else UserId obj)"
proof -
  assume "EsPutPermission pm \<in> set (putPermission x p r)"
  then obtain userId pw body obj where
    h: "BasicAuth r = Some (userId, pw)" "Body r = Inr body" "Unmarshal x body = Inr obj"
       "New (categories x) (fresh x) userId (putOptions obj) = Inr pm"
    using putPermission_persists_New by blast
  from New_putOptions_UserId [OF h(4)] h show ?thesis by blast
qed

theorem putPermission_persisted_UserId_witness:
  "\<exists>userId pw body obj.
      BasicAuth (demo_request '''' (Some (''bob'', ''builder'')) body_empty_ops) = Some (userId, pw)
      \<and> Body (demo_request '''' (Some (''bob'', ''builder'')) body_empty_ops) = Inr body
      \<and> Unmarshal demo_externals body = Inr obj
      \<and> New (categories demo_externals) (fresh demo_externals) userId (putOptions obj)
          = Inr \<lparr>UserId = ''bob'', Username = ''u-7f3a'', Password = ''9d2c'',
                 CreatedAt = ''2019-01-01T00:00:00Z'', Ops = Some [], ACLs = Some [''search''],
                 Limits = Some [(''ttl_sec'', 3600)]\<rparr>
      \<and> UserId \<lparr>UserId = ''bob'', Username = ''u-7f3a'', Password = ''9d2c'',
                 CreatedAt = ''2019-01-01T00:00:00Z'', Ops = Some [], ACLs = Some [''search''],
                 Limits = Some [(''ttl_sec'', 3600)]\<rparr>
          = (if UserId obj = '''' then userId else UserId obj)"
proof -
  have "EsPutPermission
          \<lparr>UserId = ''bob'', Username = ''u-7f3a'', Password = ''9d2c'',
           CreatedAt = ''2019-01-01T00:00:00Z'', Ops = Some [], ACLs = Some [''search''],
           Limits = Some [(''ttl_sec'', 3600)]\<rparr>
        \<in> set (putPermission demo_externals demo_plugin
                  (demo_request '''' (Some (''bob'', ''builder'')) body_empty_ops))"
    by (simp add: putPermission_def putOptions_def New_def allKnown_def Let_def demo_defs)
  from putPermission_persisted_UserId [OF this] show ?thesis .
qed

subsection \<open>C3: a fetch whose context already carries a Permission\<close>

text \<open>
  C3. The claim (and the comment above \<open>getPermission\<close>) says the context Permission is
  returned and the store is not consulted. The branch writes the context Permission and
  does not return: the handler goes on to call the store for the username of the path and
  writes a second body. Here the context carries the Permission of \<open>carol\<close> and the path
  names \<open>bob\<close>.
\<close>

theorem getPermission_context_permission_still_fetches:
  "getPermission demo_externals demo_plugin
     ((demo_request ''bob'' (Some (''alice'', ''wonderland'')) '''')
        \<lparr>CtxValue := PermissionPtr (zeroPermission\<lparr>UserId := ''alice'', Username := ''carol''\<rparr>)\<rparr>)
   = [WriteBackRaw ''user_id=alice username=carol'' StatusOK,
      EsGetRawPermission ''bob'',
      WriteBackRaw ''user_id=alice username=bob'' StatusOK]"
  by (simp add: getPermission_def fetchPermission_def usernameVar_def Let_def demo_defs)

subsection \<open>C4: a fetch while the store fails\<close>

text \<open>
  C4. The claim (and the comment above \<open>getPermission\<close>) says a failure of the store is
  answered with 500 and only a missing username with 404. The handler answers every error
  of \<open>getRawPermission\<close> with \<open>http.StatusNotFound\<close>: with the store unreachable, the fetch
  of the existing \<open>bob\<close> is answered 404.
\<close>

theorem getPermission_store_failure_is_404:
  \<open>getPermission demo_unreachable demo_plugin
     (demo_request ''bob'' (Some (''alice'', ''wonderland'')) '''')
   = [EsGetRawPermission ''bob'',
      LogPrintf (Sprintf ''%s: %s: %v\<newline>''
        [S ''[permissions]'',
         T (Sprintf ''permission for "username"="%s" not found'' [S ''bob'']),
         E (Some (Failure ''connection refused''))]),
      WriteBackError (Sprintf ''permission for "username"="%s" not found'' [S ''bob''])
        StatusNotFound]\<close>
  by (simp add: getPermission_def fetchPermission_def usernameVar_def logTag_def Let_def demo_defs)

subsection \<open>C5: patch and delete of a username the store does not hold\<close>

text \<open>
  The claim as written (404 for an absent username) fails: the store holds only \<open>bob\<close>,
  and both the delete and the patch of \<open>doesnotexist\<close> are answered 500.
\<close>

theorem patch_delete_absent_counterexample:
  "statuses (deletePermission demo_externals demo_plugin
               (demo_request ''doesnotexist'' (Some (''alice'', ''wonderland'')) ''''))
     = [StatusInternalServerError]
   \<and> statuses (patchPermission demo_externals demo_plugin
               (demo_request ''doesnotexist'' (Some (''alice'', ''wonderland'')) body_empty_ops))
     = [StatusInternalServerError]"
  by (simp add: statuses_def deletePermission_def patchPermission_def GetPatch_def allKnown_def
        usernameVar_def Let_def demo_defs)

text \<open>
  C5 (amended). For every patch or delete request that reaches the store, the handler
  makes one store call for the username of the path and answers 200 when that call reports
  ok without an error, and InternalError (500) for every other outcome of the call, an
  absent username included; neither handler ever answers NotFound (404).
\<close>

theorem patch_delete_store_outcome:
  "statuses (deletePermission x p r) =
     [if es_deletePermission x (es p) (usernameVar r) = (True, None)
      then StatusOK else StatusInternalServerError]
   \<and> storeCalls (deletePermission x p r) = [EsDeletePermission (usernameVar r)]
   \<and> (Body r = Inr body \<and> Unmarshal x body = Inr obj \<and> GetPatch (categories x) obj = Inr pt
        \<longrightarrow> statuses (patchPermission x p r) =
              [if es_patchPermission x (es p) (usernameVar r) pt = (True, None)
               then StatusOK else StatusInternalServerError]
            \<and> storeCalls (patchPermission x p r) = [EsPatchPermission (usernameVar r) pt])
   \<and> StatusNotFound \<notin> set (statuses (patchPermission x p r))
   \<and> StatusNotFound \<notin> set (statuses (deletePermission x p r))"
proof -
  have "StatusNotFound \<notin> set (statuses (patchPermission x p r))"
    using patchPermission_statuses_range [of x p r] by auto
  moreover have "StatusNotFound \<notin> set (statuses (deletePermission x p r))"
    by (simp add: deletePermission_statuses)
  ultimately show ?thesis
    using deletePermission_statuses [of x p r] deletePermission_storeCalls [of x p r]
      patchPermission_at_store [of r body x obj pt p]
    by blast
qed

theorem patch_delete_store_outcome_witness:
  "statuses (deletePermission demo_unreachable demo_plugin
               (demo_request ''bob'' (Some (''alice'', ''wonderland'')) ''''))
     = [StatusInternalServerError]
   \<and> statuses (patchPermission demo_unreachable demo_plugin
               (demo_request ''bob'' (Some (''alice'', ''wonderland'')) body_empty_ops))
     = [StatusInternalServerError]
   \<and> storeCalls (patchPermission demo_unreachable demo_plugin
               (demo_request ''bob'' (Some (''alice'', ''wonderland'')) body_empty_ops))
     = [EsPatchPermission ''bob'' [(''ops'', OpsValue [])]]
   \<and> statuses (patchPermission demo_externals demo_plugin
               (demo_request ''bob'' (Some (''alice'', ''wonderland'')) body_empty_ops))
     = [StatusOK]"
proof -
  let ?r = "demo_request ''bob'' (Some (''alice'', ''wonderland'')) body_empty_ops"
  let ?obj = "zeroPermission\<lparr>Ops := Some []\<rparr>"
  let ?pt = "[(''ops'', OpsValue [])]"
  have b: "Body ?r = Inr body_empty_ops" by (simp add: demo_request_def)
  have u: "Unmarshal demo_unreachable body_empty_ops = Inr ?obj"
          "Unmarshal demo_externals body_empty_ops = Inr ?obj"
    by (simp_all add: demo_defs)
  have g: "GetPatch (categories demo_unreachable) ?obj = Inr ?pt"
          "GetPatch (categories demo_externals) ?obj = Inr ?pt"
    by (simp_all add: GetPatch_def allKnown_def demo_defs)
  have n: "usernameVar ?r = ''bob''"
    "usernameVar (demo_request ''bob'' (Some (''alice'', ''wonderland'')) '''') = ''bob''"
    by (simp_all add: usernameVar_def demo_request_def)
  from patch_delete_store_outcome
         [of demo_unreachable demo_plugin "demo_request ''bob'' (Some (''alice'', ''wonderland'')) ''''"]
  have d: "statuses (deletePermission demo_unreachable demo_plugin
               (demo_request ''bob'' (Some (''alice'', ''wonderland'')) ''''))
     = [StatusInternalServerError]"
    by (simp add: n demo_defs)
  from patch_delete_store_outcome [of demo_unreachable demo_plugin ?r body_empty_ops ?obj ?pt]
    b u(1) g(1)
  have p1: "statuses (patchPermission demo_unreachable demo_plugin ?r) = [StatusInternalServerError]
       \<and> storeCalls (patchPermission demo_unreachable demo_plugin ?r) = [EsPatchPermission ''bob'' ?pt]"
    by (simp add: n demo_externals_def demo_unreachable_def demo_plugin_def)
  from patch_delete_store_outcome [of demo_externals demo_plugin ?r body_empty_ops ?obj ?pt]
    b u(2) g(2)
  have p2: "statuses (patchPermission demo_externals demo_plugin ?r) = [StatusOK]"
    by (simp add: n demo_externals_def demo_plugin_def)
  from d p1 p2 show ?thesis by simp
qed

subsection \<open>C6: the order of the guards\<close>

text \<open>
  C6. On every route the guards are entered in the order Classifier, credential check,
  Op check, ACL check and, on the create, patch and delete routes, Admin check. The trace
  of stage entries is exactly the initial part of that list up to the first guard that
  refuses, every stage entry precedes everything else the request causes, and the handler
  runs only after all the guards of its route were entered and let the request pass. A
  request with no credential pair is answered 401 by the credential check: it enters
  neither the Op, nor the ACL, nor the Admin stage, and no handler runs.
\<close>

theorem routes_guard_order:
  "rt \<in> set (routes g x p) \<Longrightarrow>
     prefix (stages (HandlerFunc rt r)) [Classifier, CredentialCheck, OpCheck, ACLCheck, AdminCheck]
     \<and> HandlerFunc rt r =
         map Enter (stages (HandlerFunc rt r))
         @ filter (\<lambda>e. stageOf e = None) (HandlerFunc rt r)
     \<and> (BasicAuth r = None \<longrightarrow>
          HandlerFunc rt r =
            [Enter Classifier, Enter CredentialCheck,
             WriteBackError (Lit ''Unauthenticated'') StatusUnauthorized])
     \<and> stages (HandlerFunc rt r) =
         (case BasicAuth r of
            None \<Rightarrow> [Classifier, CredentialCheck]
          | Some (u, pw) \<Rightarrow>
              (case authenticate g u pw of
                 None \<Rightarrow> [Classifier, CredentialCheck]
               | Some v \<Rightarrow>
                   (let r' = r\<lparr>Tags := classify g r, CtxValue := v\<rparr>
                    in if \<not> opPermitted g r' then [Classifier, CredentialCheck, OpCheck]
                       else if \<not> aclPermitted g r'
                         then [Classifier, CredentialCheck, OpCheck, ACLCheck]
                       else if Name rt = ''Get Permission''
                         then [Classifier, CredentialCheck, OpCheck, ACLCheck]
                       else [Classifier, CredentialCheck, OpCheck, ACLCheck, AdminCheck])))
     \<and> (\<forall>r'. admitted g r = Some r' \<longrightarrow>
          HandlerFunc rt r =
            (if Name rt = ''Get Permission''
             then map Enter [Classifier, CredentialCheck, OpCheck, ACLCheck] @ getPermission x p r'
             else map Enter [Classifier, CredentialCheck, OpCheck, ACLCheck, AdminCheck]
                  @ (if \<not> adminPermitted g r'
                       then [WriteBackError (Lit ''Forbidden'') StatusForbidden]
                     else if Name rt = ''Create Permission'' then putPermission x p r'
                     else if Name rt = ''Patch Permission'' then patchPermission x p r'
                     else deletePermission x p r')))
     \<and> (admitted g r = None \<longrightarrow>
          filter (\<lambda>e. stageOf e = None) (HandlerFunc rt r)
            = [WriteBackError (Lit ''Unauthenticated'') StatusUnauthorized]
          \<or> filter (\<lambda>e. stageOf e = None) (HandlerFunc rt r)
            = [WriteBackError (Lit ''Forbidden'') StatusForbidden])"
proof -
  assume "rt \<in> set (routes g x p)"
  from routes_unfold [OF this] show ?thesis
  proof (elim disjE conjE)
    assume "Name rt = ''Get Permission''" "HandlerFunc rt =
      classifier g (basicAuth g (validateOp g (validateACL g (getPermission x p))))"
    then show ?thesis
      by (auto simp: guard_defs admitted_def Let_def handler_no_stage split: option.splits)
  next
    assume "Name rt = ''Create Permission''" "HandlerFunc rt =
      classifier g (basicAuth g (validateOp g (validateACL g (isAdmin g (putPermission x p)))))"
    then show ?thesis
      by (auto simp: guard_defs admitted_def Let_def handler_no_stage split: option.splits)
  next
    assume "Name rt = ''Patch Permission''" "HandlerFunc rt =
      classifier g (basicAuth g (validateOp g (validateACL g (isAdmin g (patchPermission x p)))))"
    then show ?thesis
      by (auto simp: guard_defs admitted_def Let_def handler_no_stage split: option.splits)
  next
    assume "Name rt = ''Delete Permission''" "HandlerFunc rt =
      classifier g (basicAuth g (validateOp g (validateACL g (isAdmin g (deletePermission x p)))))"
    then show ?thesis
      by (auto simp: guard_defs admitted_def Let_def handler_no_stage split: option.splits)
  qed
qed

theorem routes_guard_order_witness:
  "BasicAuth (demo_request ''bob'' None '''') = None
   \<and> HandlerFunc (routes demo_guards demo_externals demo_plugin ! 3) (demo_request ''bob'' None '''')
     = [Enter Classifier, Enter CredentialCheck,
        WriteBackError (Lit ''Unauthenticated'') StatusUnauthorized]
   \<and> prefix (stages (HandlerFunc (routes demo_guards demo_externals demo_plugin ! 3)
                        (demo_request ''bob'' None '''')))
        [Classifier, CredentialCheck, OpCheck, ACLCheck, AdminCheck]
   \<and> HandlerFunc (routes demo_guards demo_externals demo_plugin ! 3)
       (demo_request ''bob'' (Some (''alice'', ''wonderland'')) '''')
     = [Enter Classifier, Enter CredentialCheck, Enter OpCheck, Enter ACLCheck, Enter AdminCheck,
        EsDeletePermission ''bob'',
        WriteBackMessage (Lit ''successfully deleted permission'') StatusOK]
   \<and> HandlerFunc (routes demo_guards demo_externals demo_plugin ! 0)
       (demo_request ''bob'' (Some (''bob'', ''builder'')) '''')
     = [Enter Classifier, Enter CredentialCheck, Enter OpCheck, Enter ACLCheck,
        EsGetRawPermission ''bob'', WriteBackRaw ''user_id=alice username=bob'' StatusOK]
   \<and> stages (HandlerFunc (routes demo_guards demo_externals demo_plugin ! 3)
               (demo_request ''bob'' (Some (''bob'', ''builder'')) ''''))
     = [Classifier, CredentialCheck, OpCheck, ACLCheck, AdminCheck]"
proof -
  let ?R = "routes demo_guards demo_externals demo_plugin"
  let ?none = "demo_request ''bob'' None ''''"
  let ?alice = "demo_request ''bob'' (Some (''alice'', ''wonderland'')) ''''"
  let ?bob = "demo_request ''bob'' (Some (''bob'', ''builder'')) ''''"
  have m0: "?R ! 0 \<in> set ?R" and m3: "?R ! 3 \<in> set ?R"
    by (simp_all add: routes_def)
  have n0: "Name (?R ! 0) = ''Get Permission''" and n3: "Name (?R ! 3) = ''Delete Permission''"
    by (simp_all add: routes_def)
  have c: "BasicAuth ?none = None" by (simp add: demo_request_def)
  have aa: "admitted demo_guards ?alice = Some (?alice\<lparr>Tags := [''permission''], CtxValue := NoValue\<rparr>)"
    and ab: "admitted demo_guards ?bob = Some (?bob\<lparr>Tags := [''permission''], CtxValue := NoValue\<rparr>)"
    by (simp_all add: admitted_def demo_guards_def demo_request_def)
  have pa: "adminPermitted demo_guards (?alice\<lparr>Tags := [''permission''], CtxValue := NoValue\<rparr>)"
    by (simp add: demo_guards_def demo_request_def)
  have d: "deletePermission demo_externals demo_plugin
             (?alice\<lparr>Tags := [''permission''], CtxValue := NoValue\<rparr>)
           = [EsDeletePermission ''bob'',
              WriteBackMessage (Lit ''successfully deleted permission'') StatusOK]"
    by (simp add: deletePermission_def usernameVar_def Let_def demo_defs)
  have f: "getPermission demo_externals demo_plugin
             (?bob\<lparr>Tags := [''permission''], CtxValue := NoValue\<rparr>)
           = [EsGetRawPermission ''bob'', WriteBackRaw ''user_id=alice username=bob'' StatusOK]"
    by (simp add: getPermission_def fetchPermission_def usernameVar_def Let_def demo_defs)
  have sb: "BasicAuth ?bob = Some (''bob'', ''builder'')"
    "authenticate demo_guards ''bob'' ''builder'' = Some NoValue"
    "opPermitted demo_guards (?bob\<lparr>Tags := classify demo_guards ?bob, CtxValue := NoValue\<rparr>)"
    "aclPermitted demo_guards (?bob\<lparr>Tags := classify demo_guards ?bob, CtxValue := NoValue\<rparr>)"
    by (simp_all add: demo_guards_def demo_request_def)
  from routes_guard_order [OF m3, of ?none] c
  have g1: "HandlerFunc (?R ! 3) ?none
              = [Enter Classifier, Enter CredentialCheck,
                 WriteBackError (Lit ''Unauthenticated'') StatusUnauthorized]
            \<and> prefix (stages (HandlerFunc (?R ! 3) ?none))
                 [Classifier, CredentialCheck, OpCheck, ACLCheck, AdminCheck]"
    by blast
  from routes_guard_order [OF m3, of ?alice] aa
  have "HandlerFunc (?R ! 3) ?alice =
      (if Name (?R ! 3) = ''Get Permission''
       then map Enter [Classifier, CredentialCheck, OpCheck, ACLCheck]
            @ getPermission demo_externals demo_plugin
                (?alice\<lparr>Tags := [''permission''], CtxValue := NoValue\<rparr>)
       else map Enter [Classifier, CredentialCheck, OpCheck, ACLCheck, AdminCheck]
            @ (if \<not> adminPermitted demo_guards (?alice\<lparr>Tags := [''permission''], CtxValue := NoValue\<rparr>)
                 then [WriteBackError (Lit ''Forbidden'') StatusForbidden]
               else if Name (?R ! 3) = ''Create Permission''
                 then putPermission demo_externals demo_plugin
                        (?alice\<lparr>Tags := [''permission''], CtxValue := NoValue\<rparr>)
               else if Name (?R ! 3) = ''Patch Permission''
                 then patchPermission demo_externals demo_plugin
                        (?alice\<lparr>Tags := [''permission''], CtxValue := NoValue\<rparr>)
               else deletePermission demo_externals demo_plugin
                        (?alice\<lparr>Tags := [''permission''], CtxValue := NoValue\<rparr>)))"
    by blast
  with n3 pa d
  have g2: "HandlerFunc (?R ! 3) ?alice
     = [Enter Classifier, Enter CredentialCheck, Enter OpCheck, Enter ACLCheck, Enter AdminCheck,
        EsDeletePermission ''bob'',
        WriteBackMessage (Lit ''successfully deleted permission'') StatusOK]"
    by simp
  from routes_guard_order [OF m0, of ?bob] ab
  have "HandlerFunc (?R ! 0) ?bob =
      (if Name (?R ! 0) = ''Get Permission''
       then map Enter [Classifier, CredentialCheck, OpCheck, ACLCheck]
            @ getPermission demo_externals demo_plugin
                (?bob\<lparr>Tags := [''permission''], CtxValue := NoValue\<rparr>)
       else map Enter [Classifier, CredentialCheck, OpCheck, ACLCheck, AdminCheck]
            @ (if \<not> adminPermitted demo_guards (?bob\<lparr>Tags := [''permission''], CtxValue := NoValue\<rparr>)
                 then [WriteBackError (Lit ''Forbidden'') StatusForbidden]
               else if Name (?R ! 0) = ''Create Permission''
                 then putPermission demo_externals demo_plugin
                        (?bob\<lparr>Tags := [''permission''], CtxValue := NoValue\<rparr>)
               else if Name (?R ! 0) = ''Patch Permission''
                 then patchPermission demo_externals demo_plugin
                        (?bob\<lparr>Tags := [''permission''], CtxValue := NoValue\<rparr>)
               else deletePermission demo_externals demo_plugin
                        (?bob\<lparr>Tags := [''permission''], CtxValue := NoValue\<rparr>)))"
    by blast
  with n0 f
  have g3: "HandlerFunc (?R ! 0) ?bob
     = [Enter Classifier, Enter CredentialCheck, Enter OpCheck, Enter ACLCheck,
        EsGetRawPermission ''bob'', WriteBackRaw ''user_id=alice username=bob'' StatusOK]"
    by simp
  from routes_guard_order [OF m3, of ?bob] sb n3
  have g4: "stages (HandlerFunc (?R ! 3) ?bob)
     = [Classifier, CredentialCheck, OpCheck, ACLCheck, AdminCheck]"
    by simp
  from c g1 g2 g3 g4 show ?thesis by simp
qed

subsection \<open>C7: the routes that carry the Admin check\<close>



subsection \<open>C8: the credential test inside \<open>putPermission\<close>\<close>

text \<open>
  C8. When \<open>r.BasicAuth()\<close> reports no credential pair, \<open>putPermission\<close> itself answers
  401 \<open>credentials not provided\<close> and does nothing else: the body is not read, no
  Permission is built and the store is not called.
\<close>

theorem putPermission_no_credentials:
  "BasicAuth r = None \<Longrightarrow>
     putPermission x p r = [WriteBackError (Lit ''credentials not provided'') StatusUnauthorized]
     \<and> ReadAll \<notin> set (putPermission x p r)
     \<and> storeCalls (putPermission x p r) = []
     \<and> statuses (putPermission x p r) = [StatusUnauthorized]"
  by (simp add: putPermission_def storeCalls_def statuses_def)

theorem putPermission_no_credentials_witness:
  "BasicAuth (demo_request '''' None body_with_user_id) = None
   \<and> putPermission demo_externals demo_plugin (demo_request '''' None body_with_user_id)
       = [WriteBackError (Lit ''credentials not provided'') StatusUnauthorized]
   \<and> statuses (putPermission demo_externals demo_plugin (demo_request '''' None body_with_user_id))
       = [StatusUnauthorized]"
proof -
  have h: "BasicAuth (demo_request '''' None body_with_user_id) = None"
    by (simp add: demo_request_def)
  from putPermission_no_credentials [OF h, of demo_externals demo_plugin] h
  show ?thesis by (simp add: statuses_def)
qed

subsection \<open>C9: the environment variables of \<open>InitFunc\<close>\<close>

text \<open>
  C9. InitFunc returns an EnvVarNotSetError naming the first unset variable among
  ES_CLUSTER_URL, PERMISSIONS_ES_INDEX, PERMISSIONS_ES_TYPE (in that order) and then
  leaves the plugin untouched without constructing the dao; the dao constructor is
  called, once and with the three values read, exactly when all three are set.
\<close>

theorem InitFunc_env_vars:
  "requiredEnvVars = [''ES_CLUSTER_URL'', ''PERMISSIONS_ES_INDEX'', ''PERMISSIONS_ES_TYPE'']
   \<and> (case find (\<lambda>v. Getenv s v = '''') requiredEnvVars of
        Some v \<Rightarrow>
          fst (InitFunc s p) = p
          \<and> snd (snd (InitFunc s p)) = Some (EnvVarNotSetError v)
          \<and> filter isCallNewES (fst (snd (InitFunc s p))) = []
      | None \<Rightarrow>
          fst (InitFunc s p) =
            p\<lparr>es := fst (NewES s (Getenv s ''ES_CLUSTER_URL'') (Getenv s ''PERMISSIONS_ES_INDEX'')
                            (Getenv s ''PERMISSIONS_ES_TYPE'') (IndexMapping s))\<rparr>
          \<and> filter isCallNewES (fst (snd (InitFunc s p))) =
              [CallNewES (Getenv s ''ES_CLUSTER_URL'') (Getenv s ''PERMISSIONS_ES_INDEX'')
                 (Getenv s ''PERMISSIONS_ES_TYPE'') (IndexMapping s)]
          \<and> (\<forall>v. snd (snd (InitFunc s p)) \<noteq> Some (EnvVarNotSetError v)))"
  by (simp add: requiredEnvVars_def envEsURL_def envPermissionEsIndex_def envPermissionEsType_def
        InitFunc_def Let_def split: prod.split)

theorem InitFunc_env_vars_witness:
  "fst (InitFunc (demo_startup [''PERMISSIONS_ES_TYPE'', ''PERMISSIONS_ES_INDEX'']) demo_plugin)
     = demo_plugin
   \<and> snd (snd (InitFunc (demo_startup [''PERMISSIONS_ES_TYPE'', ''PERMISSIONS_ES_INDEX'']) demo_plugin))
     = Some (EnvVarNotSetError ''PERMISSIONS_ES_INDEX'')
   \<and> filter isCallNewES
       (fst (snd (InitFunc (demo_startup [''PERMISSIONS_ES_TYPE'', ''PERMISSIONS_ES_INDEX''])
                    demo_plugin))) = []
   \<and> filter isCallNewES (fst (snd (InitFunc (demo_startup []) demo_plugin)))
     = [CallNewES ''value-of-ES_CLUSTER_URL'' ''value-of-PERMISSIONS_ES_INDEX''
          ''value-of-PERMISSIONS_ES_TYPE'' ''{}'']"
proof -
  have unset: "find (\<lambda>v. Getenv (demo_startup [''PERMISSIONS_ES_TYPE'', ''PERMISSIONS_ES_INDEX'']) v = '''')
                 [''ES_CLUSTER_URL'', ''PERMISSIONS_ES_INDEX'', ''PERMISSIONS_ES_TYPE'']
               = Some ''PERMISSIONS_ES_INDEX''"
    by (simp add: demo_startup_def)
  have allset: "find (\<lambda>v. Getenv (demo_startup []) v = '''')
                 [''ES_CLUSTER_URL'', ''PERMISSIONS_ES_INDEX'', ''PERMISSIONS_ES_TYPE''] = None"
    by (simp add: demo_startup_def)
  from InitFunc_env_vars [of "demo_startup [''PERMISSIONS_ES_TYPE'', ''PERMISSIONS_ES_INDEX'']" demo_plugin]
    unset
  have one: "fst (InitFunc (demo_startup [''PERMISSIONS_ES_TYPE'', ''PERMISSIONS_ES_INDEX'']) demo_plugin)
       = demo_plugin
     \<and> snd (snd (InitFunc (demo_startup [''PERMISSIONS_ES_TYPE'', ''PERMISSIONS_ES_INDEX'']) demo_plugin))
       = Some (EnvVarNotSetError ''PERMISSIONS_ES_INDEX'')
     \<and> filter isCallNewES
         (fst (snd (InitFunc (demo_startup [''PERMISSIONS_ES_TYPE'', ''PERMISSIONS_ES_INDEX''])
                      demo_plugin))) = []"
    by simp
  from InitFunc_env_vars [of "demo_startup []" demo_plugin] allset
  have two: "filter isCallNewES (fst (snd (InitFunc (demo_startup []) demo_plugin)))
     = [CallNewES ''value-of-ES_CLUSTER_URL'' ''value-of-PERMISSIONS_ES_INDEX''
          ''value-of-PERMISSIONS_ES_TYPE'' ''{}'']"
    by (simp add: demo_startup_def)
  from one two show ?thesis by simp
qed

subsection \<open>C10: absent and explicitly empty fields on create\<close>

text \<open>
  C10. The options \<open>putPermission\<close> passes to \<open>New\<close> contain a setter for Ops, ACLs or
  Limits exactly when the decoded body has that field (not nil), and then with the value
  of the body unchanged. A body without the three fields gives no setter for them; a body
  with explicitly empty Ops and ACLs gives \<open>SetOps []\<close> and \<open>SetACLs []\<close>.
\<close>

theorem putOptions_absent_or_provided:
  "(SetOps v \<in> set (putOptions obj) \<longleftrightarrow> Ops obj = Some v)
   \<and> (SetACLs v \<in> set (putOptions obj) \<longleftrightarrow> ACLs obj = Some v)
   \<and> (SetLimits l \<in> set (putOptions obj) \<longleftrightarrow> Limits obj = Some l)
   \<and> putOptions (obj\<lparr>Ops := None, ACLs := None, Limits := None\<rparr>)
       = (if UserId obj \<noteq> '''' then [SetUserId (UserId obj)] else [])
   \<and> putOptions (obj\<lparr>Ops := Some [], ACLs := Some [], Limits := None\<rparr>)
       = (if UserId obj \<noteq> '''' then [SetUserId (UserId obj)] else []) @ [SetOps [], SetACLs []]"
  by (auto simp add: putOptions_def split: option.splits)

theorem putOptions_absent_or_provided_witness:
  "putOptions zeroPermission = []
   \<and> putOptions (zeroPermission\<lparr>Ops := Some [], ACLs := Some [], Limits := None\<rparr>)
       = [SetOps [], SetACLs []]
   \<and> SetOps [] \<notin> set (putOptions zeroPermission)"
proof -
  have z: "zeroPermission\<lparr>Ops := None, ACLs := None, Limits := None\<rparr> = zeroPermission"
    "UserId zeroPermission = ''''" "Ops zeroPermission = None"
    by (simp_all add: zeroPermission_def)
  from putOptions_absent_or_provided [where obj = zeroPermission and v = "[]" and l = "[]"] z
  show ?thesis by simp
qed

end
